theory Spec2Isabelle
  imports Complex_Main "HOL-Library.Sublist"
begin

unbundle bit_operations_syntax

section \<open>Strings, regular expressions and numbers of the host classifier\<close>

text \<open>
  Host names are ASCII once the URL constructor has produced them, so a JavaScript string
  is modelled as a \<open>string\<close> (a list of 8-bit characters) and \<open>toLowerCase\<close> as the
  ASCII case mapping.
\<close>

definition lower_char :: "char \<Rightarrow> char" where
  "lower_char c =
     (case map_of (zip ''ABCDEFGHIJKLMNOPQRSTUVWXYZ'' ''abcdefghijklmnopqrstuvwxyz'') c of
        Some l \<Rightarrow> l
      | None \<Rightarrow> c)"

definition toLowerCase :: "string \<Rightarrow> string" where
  "toLowerCase s = map lower_char s"

text \<open>\<open>s.startsWith(p)\<close> is \<^const>\<open>prefix\<close>; \<open>s.slice(1, -1)\<close> drops the first and the last
  character (and yields the empty string on a string of length one).\<close>

definition slice_1_m1 :: "string \<Rightarrow> string" where
  "slice_1_m1 s = butlast (tl s)"

text \<open>The character classes \<open>\d\<close> and \<open>[0-9a-f]\<close> under the \<open>i\<close> flag.\<close>

definition isDigit :: "char \<Rightarrow> bool" where
  "isDigit c = (c \<in> set ''0123456789'')"

definition isHexDigit :: "char \<Rightarrow> bool" where
  "isHexDigit c = (c \<in> set ''0123456789abcdefABCDEF'')"

definition digit_val :: "char \<Rightarrow> nat" where
  "digit_val c =
     (case map_of (zip ''0123456789abcdefABCDEF''
                       [0, 1, 2, 3, 4, 5, 6, 7, 8, 9, 10, 11, 12, 13, 14, 15, 10, 11, 12, 13, 14, 15]) c of
        Some v \<Rightarrow> v
      | None \<Rightarrow> 0)"

text \<open>\<open>Number(s)\<close> on a string of decimal digits, and \<open>Number(''0x'' + s)\<close> or
  \<open>parseInt(s, 16)\<close> on a string of hexadecimal digits. The value is kept exact: the
  source only compares it with \<open>0xffffffff\<close> and then works below that bound, where a
  double is exact.\<close>

definition parseDecimal :: "string \<Rightarrow> nat" where
  "parseDecimal s = foldl (\<lambda>n c. 10 * n + digit_val c) 0 s"

definition parseHex :: "string \<Rightarrow> nat" where
  "parseHex s = foldl (\<lambda>n c. 16 * n + digit_val c) 0 s"

text \<open>A number in a template literal: its decimal digits.\<close>

definition digit_char :: "nat \<Rightarrow> char" where
  "digit_char d = ''0123456789'' ! d"

function show_nat :: "nat \<Rightarrow> string" where
  "show_nat n = (if n < 10 then [digit_char n] else show_nat (n div 10) @ [digit_char (n mod 10)])"
  by pat_completeness auto
termination
  by (relation "measure id") auto

declare show_nat.simps [simp del]

text \<open>\<open>/^\d+$/\<close> and \<open>/^0x[0-9a-f]+$/i\<close>.\<close>

definition matches_decimal :: "string \<Rightarrow> bool" where
  "matches_decimal s = (s \<noteq> [] \<and> list_all isDigit s)"

definition matches_hex :: "string \<Rightarrow> bool" where
  "matches_hex s =
     (toLowerCase (take 2 s) = ''0x'' \<and> drop 2 s \<noteq> [] \<and> list_all isHexDigit (drop 2 s))"

text \<open>\<open>/^::ffff:([0-9a-f]{1,4}):([0-9a-f]{1,4})$/i\<close>, returning the two groups. A colon is
  no hexadecimal digit, so the first group is the longest run of hexadecimal digits.\<close>

definition match_mapped_hex :: "string \<Rightarrow> (string \<times> string) option" where
  "match_mapped_hex bare =
     (if toLowerCase (take 7 bare) = ''::ffff:'' then
        (let rest = drop 7 bare;
             g1 = takeWhile isHexDigit rest
         in case dropWhile isHexDigit rest of
              [] \<Rightarrow> None
            | c # g2 \<Rightarrow>
                if c = CHR '':'' \<and> 1 \<le> length g1 \<and> length g1 \<le> 4 \<and>
                   1 \<le> length g2 \<and> length g2 \<le> 4 \<and> list_all isHexDigit g2
                then Some (g1, g2) else None)
      else None)"

text \<open>\<open>/^::ffff:(\d{1,3}(?:\.\d{1,3}){3})$/i\<close>, returning the group: four runs of one to
  three digits, separated by dots.\<close>

fun split_on :: "char \<Rightarrow> string \<Rightarrow> string list" where
  "split_on d [] = [[]]"
| "split_on d (c # cs) =
     (if c = d then [] # split_on d cs
      else (case split_on d cs of
              [] \<Rightarrow> [[c]]
            | p # ps \<Rightarrow> (c # p) # ps))"

definition match_mapped_dotted :: "string \<Rightarrow> string option" where
  "match_mapped_dotted bare =
     (if toLowerCase (take 7 bare) = ''::ffff:'' \<and>
         (let parts = split_on (CHR ''.'') (drop 7 bare)
          in length parts = 4 \<and>
             list_all (\<lambda>p. 1 \<le> length p \<and> length p \<le> 3 \<and> list_all isDigit p) parts)
      then Some (drop 7 bare) else None)"

section \<open>SSRF protection: the host classifier\<close>

definition PRIVATE_HOSTS :: "string list" where
  "PRIVATE_HOSTS =
     [''localhost'', ''127.0.0.1'', ''::1'', ''0.0.0.0'', ''metadata.google.internal'',
      ''169.254.169.254'']"

definition PRIVATE_CIDR_PREFIXES :: "string list" where
  "PRIVATE_CIDR_PREFIXES =
     [''10.'', ''127.'', ''169.254.'',
      ''172.16.'', ''172.17.'', ''172.18.'', ''172.19.'', ''172.20.'', ''172.21.'', ''172.22.'',
      ''172.23.'', ''172.24.'', ''172.25.'', ''172.26.'', ''172.27.'', ''172.28.'', ''172.29.'',
      ''172.30.'', ''172.31.'',
      ''192.168.'', ''0.'', ''100.64.'', ''198.18.'', ''198.19.'']"

text \<open>\<open>PRIVATE_CIDR_PREFIXES.some((prefix) => s.startsWith(prefix))\<close>.\<close>

definition has_private_prefix :: "string \<Rightarrow> bool" where
  "has_private_prefix s = list_ex (\<lambda>p. prefix p s) PRIVATE_CIDR_PREFIXES"

definition extractMappedIPv4 :: "string \<Rightarrow> string option" where
  "extractMappedIPv4 hostname =
     (let bare = (if prefix ''['' hostname then slice_1_m1 hostname else hostname)
      in case match_mapped_hex bare of
           Some (m1, m2) \<Rightarrow>
             (let hi = parseHex m1; lo = parseHex m2
              in Some (show_nat (drop_bit 8 hi AND 0xff) @ ''.'' @ show_nat (hi AND 0xff) @ ''.'' @
                       show_nat (drop_bit 8 lo AND 0xff) @ ''.'' @ show_nat (lo AND 0xff)))
         | None \<Rightarrow> match_mapped_dotted bare)"

definition isNumericPrivateIp :: "string \<Rightarrow> bool" where
  "isNumericPrivateIp hostname =
     (if matches_decimal hostname \<and> parseDecimal hostname \<le> 0xffffffff \<and>
         (let num = parseDecimal hostname;
              a = drop_bit 24 num AND 0xff;
              b = drop_bit 16 num AND 0xff
          in a = 127 \<or> a = 10 \<or> (a = 172 \<and> 16 \<le> b \<and> b \<le> 31) \<or> (a = 192 \<and> b = 168) \<or>
             (a = 169 \<and> b = 254) \<or> a = 0 \<or> (a = 100 \<and> b = 64) \<or>
             (a = 198 \<and> (b = 18 \<or> b = 19)))
      then True
      else if matches_hex hostname \<and> parseHex (drop 2 hostname) \<le> 0xffffffff \<and>
         (let num = parseHex (drop 2 hostname);
              a = drop_bit 24 num AND 0xff;
              b = drop_bit 16 num AND 0xff
          in a = 127 \<or> a = 10 \<or> (a = 172 \<and> 16 \<le> b \<and> b \<le> 31) \<or> (a = 192 \<and> b = 168) \<or>
             (a = 169 \<and> b = 254) \<or> a = 0)
      then True
      else False)"

definition isPrivateIPv6 :: "string \<Rightarrow> bool" where
  "isPrivateIPv6 bare =
     (let lower = toLowerCase bare
      in if lower = ''::1'' then True
         else if prefix ''fc'' lower \<or> prefix ''fd'' lower then True
         else if prefix ''fe80'' lower then True
         else False)"

text \<open>
  The \<open>URL\<close> constructor and \<open>isIP\<close> of \<open>node:net\<close> belong to the platform, not to this
  repository: they are parameters of the model. \<open>newURL s = None\<close> stands for the
  constructor throwing on \<open>s\<close>; otherwise it yields the two properties the classifier reads.
\<close>

record URL =
  protocol :: string
  hostname :: string

text \<open>The body of the \<open>try\<close> block once the constructor has returned.\<close>

definition isPrivateUrl_parsed :: "(string \<Rightarrow> nat) \<Rightarrow> URL \<Rightarrow> bool" where
  "isPrivateUrl_parsed isIP parsed =
     (let hostname = toLowerCase (hostname parsed)
      in if protocol parsed \<noteq> ''http:'' \<and> protocol parsed \<noteq> ''https:'' then True
         else
           (let bare = (if prefix ''['' hostname then slice_1_m1 hostname else hostname)
            in if hostname \<in> set PRIVATE_HOSTS \<or> bare \<in> set PRIVATE_HOSTS then True
               else
                 (let ipVersion = isIP bare
                  in if ipVersion = 4 \<and> has_private_prefix bare then True
                     else if ipVersion = 6 \<and> isPrivateIPv6 bare then True
                     else
                       (case extractMappedIPv4 hostname of
                          Some mappedIpv4 \<Rightarrow>
                            if mappedIpv4 \<noteq> [] \<and> mappedIpv4 \<in> set PRIVATE_HOSTS then True
                            else if mappedIpv4 \<noteq> [] \<and> has_private_prefix mappedIpv4 then True
                            else if isNumericPrivateIp hostname then True
                            else False
                        | None \<Rightarrow>
                            if isNumericPrivateIp hostname then True else False))))"

definition isPrivateUrl :: "(string \<Rightarrow> URL option) \<Rightarrow> (string \<Rightarrow> nat) \<Rightarrow> string \<Rightarrow> bool" where
  "isPrivateUrl newURL isIP urlStr =
     (case newURL urlStr of
        None \<Rightarrow> True
      | Some parsed \<Rightarrow> isPrivateUrl_parsed isIP parsed)"

text \<open>The stand-in for \<open>isIP\<close> that the repository's test suite installs.\<close>

definition isIP_mock :: "string \<Rightarrow> nat" where
  "isIP_mock host =
     (let parts = split_on (CHR ''.'') host
      in if length parts = 4 \<and> list_all (\<lambda>p. p \<noteq> [] \<and> list_all isDigit p) parts then 4
         else if CHR '':'' \<in> set host then 6
         else 0)"

record WebSearchResult =
  title :: string
  url :: string
  snippet :: string

definition filterResults ::
  "(string \<Rightarrow> URL option) \<Rightarrow> (string \<Rightarrow> nat) \<Rightarrow> WebSearchResult list \<Rightarrow> WebSearchResult list" where
  "filterResults newURL isIP results = filter (\<lambda>r. \<not> isPrivateUrl newURL isIP (url r)) results"

text \<open>
  The shapes of an IPv4-mapped literal, for the statements below: a group of one to four
  hexadecimal digits, a run of one to three digits, and the dotted quad of the four bytes
  held by two hexadecimal groups.
\<close>

definition hex_group :: "string \<Rightarrow> bool" where
  "hex_group g = (1 \<le> length g \<and> length g \<le> 4 \<and> list_all isHexDigit g)"

definition digit_group :: "string \<Rightarrow> bool" where
  "digit_group g = (1 \<le> length g \<and> length g \<le> 3 \<and> list_all isDigit g)"

definition quad_of_groups :: "string \<Rightarrow> string \<Rightarrow> string" where
  "quad_of_groups g1 g2 =
     show_nat (parseHex g1 div 256 mod 256) @ ''.'' @ show_nat (parseHex g1 mod 256) @ ''.'' @
     show_nat (parseHex g2 div 256 mod 256) @ ''.'' @ show_nat (parseHex g2 mod 256)"


text \<open>
  A finite table standing for the constructor in the examples: each listed string with the
  scheme and the host name that the constructor of Node yields for it (a numeric host as a
  dotted quad, an IPv4-mapped literal in lower case with two hexadecimal groups). Every
  other string, \<open>not-a-url\<close> among them, is rejected.
\<close>

definition newURL_table :: "string \<Rightarrow> URL option" where
  "newURL_table =
     [''https://example.com/1'' \<mapsto> \<lparr>protocol = ''https:'', hostname = ''example.com''\<rparr>,
      ''http://127.0.0.1/secret'' \<mapsto> \<lparr>protocol = ''http:'', hostname = ''127.0.0.1''\<rparr>,
      ''http://[::ffff:7f00:1]/'' \<mapsto> \<lparr>protocol = ''http:'', hostname = ''[::ffff:7f00:1]''\<rparr>,
      ''https://[::FFFF:127.0.0.1]/'' \<mapsto>
        \<lparr>protocol = ''https:'', hostname = ''[::ffff:7f00:1]''\<rparr>,
      ''http://0x64400001/'' \<mapsto> \<lparr>protocol = ''http:'', hostname = ''100.64.0.1''\<rparr>,
      ''http://1681915905/'' \<mapsto> \<lparr>protocol = ''http:'', hostname = ''100.64.0.1''\<rparr>]"

section \<open>Per-provider rate limiter (token bucket)\<close>

text \<open>
  \<open>tokens\<close> is a JavaScript number, a double; it is modelled as an exact rational, and
  \<open>Date.now()\<close> yields integer milliseconds. The two differ where a double rounds: ten
  refills of 10 ms each add up to 0.9999999999999999 in the source and to 1 here. The
  statements below are about a trace on which every value is the same in both (a single
  refill of 100 ms gives exactly 1) and about the bounds of \<open>tokens\<close>, which rounding
  preserves.
\<close>

record RateBucket =
  tokens :: rat
  lastRefill :: int
  maxTokens :: rat
  refillRate :: rat

text \<open>
  The module-level state: the bucket map, the number of clock readings taken so far, and
  the providers whose backend has been called, oldest first. The clock is an oracle: the
  \<open>n\<close>-th call of \<open>Date.now()\<close> returns \<open>clock n\<close>.
\<close>

record state =
  rateBuckets :: "string \<rightharpoonup> RateBucket"
  ticks :: nat
  searched :: "string list"

definition getRateBucket :: "(nat \<Rightarrow> int) \<Rightarrow> string \<Rightarrow> state \<Rightarrow> RateBucket \<times> state" where
  "getRateBucket clock provider st =
     (case rateBuckets st provider of
        Some bucket \<Rightarrow> (bucket, st)
      | None \<Rightarrow>
          (let bucket = \<lparr>tokens = 10, lastRefill = clock (ticks st), maxTokens = 10, refillRate = 10\<rparr>
           in (bucket, st\<lparr>rateBuckets := (rateBuckets st)(provider \<mapsto> bucket),
                           ticks := Suc (ticks st)\<rparr>)))"

text \<open>Refill and consume on the bucket, given the reading \<open>now\<close> of the clock.\<close>

definition consumeToken_bucket :: "int \<Rightarrow> RateBucket \<Rightarrow> bool \<times> RateBucket" where
  "consumeToken_bucket now bucket =
     (let elapsed = of_int (now - lastRefill bucket) / 1000;
          bucket1 = bucket\<lparr>tokens := min (maxTokens bucket) (tokens bucket + elapsed * refillRate bucket),
                           lastRefill := now\<rparr>
      in if tokens bucket1 < 1 then (False, bucket1)
         else (True, bucket1\<lparr>tokens := tokens bucket1 - 1\<rparr>))"

definition consumeToken :: "(nat \<Rightarrow> int) \<Rightarrow> string \<Rightarrow> state \<Rightarrow> bool \<times> state" where
  "consumeToken clock provider st =
     (let (bucket, st1) = getRateBucket clock provider st;
          now = clock (ticks st1);
          (ok, bucket2) = consumeToken_bucket now bucket
      in (ok, st1\<lparr>rateBuckets := (rateBuckets st1)(provider \<mapsto> bucket2),
                   ticks := Suc (ticks st1)\<rparr>))"

text \<open>A run of successive \<open>consumeToken\<close> calls, one per listed provider, with their
  answers.\<close>

fun consumeTokens :: "(nat \<Rightarrow> int) \<Rightarrow> string list \<Rightarrow> state \<Rightarrow> bool list \<times> state" where
  "consumeTokens clock [] st = ([], st)"
| "consumeTokens clock (provider # rest) st =
     (let (ok, st1) = consumeToken clock provider st;
          (oks, st2) = consumeTokens clock rest st1
      in (ok # oks, st2))"

text \<open>The invariant of the data model, and the bucket that \<open>getRateBucket\<close> creates.\<close>

definition bucket_ok :: "RateBucket \<Rightarrow> bool" where
  "bucket_ok b = (0 \<le> tokens b \<and> tokens b \<le> maxTokens b)"

definition bucket_at :: "rat \<Rightarrow> int \<Rightarrow> RateBucket" where
  "bucket_at n t = \<lparr>tokens = n, lastRefill = t, maxTokens = 10, refillRate = 10\<rparr>"

definition init_state :: state where
  "init_state = \<lparr>rateBuckets = Map.empty, ticks = 0, searched = []\<rparr>"

section \<open>Provider factory\<close>

text \<open>
  The optional chain \<open>config.providers?.google?.apiKey\<close> is one optional value; so is each
  variable of \<open>process.env\<close>.
\<close>

record WebSearchPluginConfig =
  providerOrder :: "string list option"
  google_apiKey :: "string option"
  google_cx :: "string option"
  brave_apiKey :: "string option"
  xai_apiKey :: "string option"

datatype WebSearchProvider =
  GoogleSearchProvider string string
| BraveSearchProvider string
| XaiSearchProvider string

text \<open>\<open>a ?? b\<close>, and the truthiness of an optional string.\<close>

definition nullish :: "'a option \<Rightarrow> 'a option \<Rightarrow> 'a option" where
  "nullish a b = (case a of Some v \<Rightarrow> Some v | None \<Rightarrow> b)"

definition truthy :: "string option \<Rightarrow> bool" where
  "truthy x = (case x of Some v \<Rightarrow> v \<noteq> [] | None \<Rightarrow> False)"

definition buildProvider ::
  "(string \<rightharpoonup> string) \<Rightarrow> string \<Rightarrow> WebSearchPluginConfig \<Rightarrow> WebSearchProvider option" where
  "buildProvider env name config =
     (if name = ''google'' then
        (let apiKey = nullish (env ''GOOGLE_SEARCH_API_KEY'') (google_apiKey config);
             cx = nullish (env ''GOOGLE_SEARCH_CX'') (google_cx config)
         in case (apiKey, cx) of
              (Some k, Some c) \<Rightarrow>
                if \<not> truthy apiKey \<or> \<not> truthy cx then None else Some (GoogleSearchProvider k c)
            | _ \<Rightarrow> None)
      else if name = ''brave'' then
        (let apiKey = nullish (env ''BRAVE_SEARCH_API_KEY'') (brave_apiKey config)
         in case apiKey of
              Some k \<Rightarrow> if \<not> truthy apiKey then None else Some (BraveSearchProvider k)
            | None \<Rightarrow> None)
      else if name = ''xai'' then
        (let apiKey = nullish (env ''XAI_API_KEY'') (xai_apiKey config)
         in case apiKey of
              Some k \<Rightarrow> if \<not> truthy apiKey then None else Some (XaiSearchProvider k)
            | None \<Rightarrow> None)
      else None)"

definition DEFAULT_PROVIDER_ORDER :: "string list" where
  "DEFAULT_PROVIDER_ORDER = [''google'', ''brave'', ''xai'']"

definition getProviderOrder :: "WebSearchPluginConfig \<Rightarrow> string list" where
  "getProviderOrder config =
     (case providerOrder config of
        Some order \<Rightarrow>
          if length order > 0 then filter (\<lambda>n. n \<in> set [''google'', ''brave'', ''xai'']) order
          else DEFAULT_PROVIDER_ORDER
      | None \<Rightarrow> DEFAULT_PROVIDER_ORDER)"

section \<open>The tool handler\<close>

text \<open>
  What the handler takes from outside the repository: the URL constructor, \<open>isIP\<close>,
  \<open>process.env\<close>, the clock, and the backends. A backend call either throws (\<open>Inl\<close> the
  message) or returns results; it may answer differently from call to call, so it also
  receives the number of backend calls made before it.
\<close>

record platform =
  URL_ctor :: "string \<Rightarrow> URL option"
  net_isIP :: "string \<Rightarrow> nat"
  process_env :: "string \<rightharpoonup> string"
  Date_now :: "nat \<Rightarrow> int"
  provider_search :: "nat \<Rightarrow> WebSearchProvider \<Rightarrow> string \<Rightarrow> int \<Rightarrow> string + WebSearchResult list"

record tool_args =
  arg_query :: string
  arg_count :: "int option"
  arg_provider :: "string option"

text \<open>
  The result of the tool: the payload that is serialised on success (provider, query,
  resultCount, results), or the text of the error result (\<open>isError: true\<close>).
\<close>

datatype A2AToolResult =
  Success string string nat "WebSearchResult list"
| Failure string

definition newline :: string where
  "newline = [CHR 0x0A]"

fun join :: "string \<Rightarrow> string list \<Rightarrow> string" where
  "join sep [] = []"
| "join sep [x] = x"
| "join sep (x # y # ys) = x @ sep @ join sep (y # ys)"

definition failure_text :: "string list \<Rightarrow> string" where
  "failure_text errors =
     ''All search providers failed:'' @ newline @
     join newline (map (\<lambda>e. ''  - '' @ e) errors) @ newline @ newline @
     ''Configure at least one provider via environment variables or config:'' @ newline @
     ''  GOOGLE_SEARCH_API_KEY + GOOGLE_SEARCH_CX'' @ newline @
     ''  BRAVE_SEARCH_API_KEY'' @ newline @
     ''  XAI_API_KEY''"

text \<open>The \<open>for\<close> loop over the candidate order, with the diagnostics gathered so far.\<close>

fun handler_loop ::
  "platform \<Rightarrow> WebSearchPluginConfig \<Rightarrow> string \<Rightarrow> int \<Rightarrow> string list \<Rightarrow> string list \<Rightarrow> state \<Rightarrow>
     (string list + string \<times> WebSearchResult list) \<times> state" where
  "handler_loop pf config query count [] errors st = (Inl errors, st)"
| "handler_loop pf config query count (providerName # rest) errors st =
     (case buildProvider (process_env pf) providerName config of
        None \<Rightarrow>
          handler_loop pf config query count rest (errors @ [providerName @ '': not configured'']) st
      | Some providerInstance \<Rightarrow>
          (case consumeToken (Date_now pf) providerName st of
             (False, st1) \<Rightarrow>
               handler_loop pf config query count rest (errors @ [providerName @ '': rate limited'']) st1
           | (True, st1) \<Rightarrow>
               (let st2 = st1\<lparr>searched := searched st1 @ [providerName]\<rparr>
                in case provider_search pf (length (searched st1)) providerInstance query count of
                     Inr raw \<Rightarrow>
                       (Inr (providerName, filterResults (URL_ctor pf) (net_isIP pf) raw), st2)
                   | Inl msg \<Rightarrow>
                       handler_loop pf config query count rest
                         (errors @ [providerName @ '': '' @ msg]) st2)))"

text \<open>The candidate order: a forced provider (a non-empty string) alone, or the configured
  order.\<close>

definition candidate_order :: "string option \<Rightarrow> WebSearchPluginConfig \<Rightarrow> string list" where
  "candidate_order forcedProvider config =
     (case forcedProvider of
        Some p \<Rightarrow> if p \<noteq> [] then [p] else getProviderOrder config
      | None \<Rightarrow> getProviderOrder config)"

definition clamp_count :: "int option \<Rightarrow> int" where
  "clamp_count rawCount = max 1 (min (case rawCount of None \<Rightarrow> 5 | Some c \<Rightarrow> c) 20)"

definition handler ::
  "platform \<Rightarrow> WebSearchPluginConfig \<Rightarrow> tool_args \<Rightarrow> state \<Rightarrow> A2AToolResult \<times> state" where
  "handler pf config args st =
     (let query = arg_query args;
          count = clamp_count (arg_count args);
          order = candidate_order (arg_provider args) config
      in case handler_loop pf config query count order [] st of
           (Inr (providerName, results), st') \<Rightarrow>
             (Success providerName query (length results) results, st')
         | (Inl errors, st') \<Rightarrow> (Failure (failure_text errors), st'))"

text \<open>
  A platform for the examples: Brave and xAI have keys in the environment, Google has none;
  the clock stands still; Brave answers with one result on a loopback address, every other
  backend with one public result.
\<close>

definition example_env :: "string \<rightharpoonup> string" where
  "example_env = [''BRAVE_SEARCH_API_KEY'' \<mapsto> ''test-brave-key'', ''XAI_API_KEY'' \<mapsto> ''test-xai-key'']"

definition example_search ::
  "nat \<Rightarrow> WebSearchProvider \<Rightarrow> string \<Rightarrow> int \<Rightarrow> string + WebSearchResult list" where
  "example_search n inst query count =
     (case inst of
        BraveSearchProvider k \<Rightarrow>
          Inr [\<lparr>title = ''Bad'', url = ''http://127.0.0.1/secret'', snippet = ''Private''\<rparr>]
      | _ \<Rightarrow> Inr [\<lparr>title = ''Good'', url = ''https://example.com/1'', snippet = ''Public''\<rparr>])"

definition example_platform :: platform where
  "example_platform =
     \<lparr>URL_ctor = newURL_table, net_isIP = isIP_mock, process_env = example_env,
      Date_now = (\<lambda>n. 1700000000000), provider_search = example_search\<rparr>"

definition default_config :: WebSearchPluginConfig where
  "default_config =
     \<lparr>providerOrder = None, google_apiKey = None, google_cx = None, brave_apiKey = None,
      xai_apiKey = None\<rparr>"

text \<open>A backend that fails for Brave, and a state whose Brave bucket is empty.\<close>

definition failing_search ::
  "nat \<Rightarrow> WebSearchProvider \<Rightarrow> string \<Rightarrow> int \<Rightarrow> string + WebSearchResult list" where
  "failing_search n inst query count =
     (case inst of
        BraveSearchProvider k \<Rightarrow> Inl ''Brave Search API returned 500: Server Error''
      | _ \<Rightarrow> Inr [\<lparr>title = ''Good'', url = ''https://example.com/1'', snippet = ''Public''\<rparr>])"

definition exhausted_state :: state where
  "exhausted_state =
     \<lparr>rateBuckets = [''brave'' \<mapsto> bucket_at 0 1700000000000], ticks = 11, searched = []\<rparr>"

text \<open>
  Clocks for the examples: one that stands still for twelve readings and then shows 100 ms
  more, one that is set back two seconds after its first reading, one that advances 40 ms
  per reading. And the invariant carried through a run of the rate limiter: every bucket
  is within bounds, refills at a non-negative rate, and was last refilled no later than the
  next reading of the clock.
\<close>

definition frozen_then_later :: "nat \<Rightarrow> int" where
  "frozen_then_later n = (if n < 12 then 1700000000000 else 1700000000100)"

definition backward_clock :: "nat \<Rightarrow> int" where
  "backward_clock n = (if n = 0 then 1700000002000 else 1700000000000)"

definition steady_clock :: "nat \<Rightarrow> int" where
  "steady_clock n = 1700000000000 + 40 * int n"

definition buckets_inv :: "(nat \<Rightarrow> int) \<Rightarrow> state \<Rightarrow> bool" where
  "buckets_inv clock st =
     (\<forall>p b. rateBuckets st p = Some b \<longrightarrow>
        bucket_ok b \<and> 0 \<le> refillRate b \<and> lastRefill b \<le> clock (ticks st))"



section \<open>Claims about the host classifier and the result filter\<close>

text \<open>
  C2. \<open>isPrivateUrl\<close> is total: it returns a boolean on every string, and on every string
  that the URL constructor rejects (the constructor throws, the \<open>catch\<close> clause answers)
  it returns true. No other operation of the \<open>try\<close> block can throw.
\<close>

theorem isPrivateUrl_fail_closed:
  "newURL urlStr = None \<Longrightarrow> isPrivateUrl newURL isIP urlStr = True"
  by (simp add: isPrivateUrl_def)

theorem isPrivateUrl_fail_closed_witness:
  "newURL_table ''not-a-url'' = None \<and> isPrivateUrl newURL_table isIP_mock ''not-a-url'' = True"
proof -
  have h: "newURL_table ''not-a-url'' = None"
    by (simp add: newURL_table_def)
  show ?thesis
    using h isPrivateUrl_fail_closed [of newURL_table "''not-a-url''" isIP_mock] by simp
qed

lemma byte_lo: "(n::nat) AND 0xff = n mod 256"
proof -
  have "n AND mask 8 = take_bit 8 n"
    by (simp add: take_bit_eq_mask)
  then show ?thesis
    by (simp add: take_bit_eq_mod mask_eq_exp_minus_1)
qed

lemma lower_prefix7: "toLowerCase (take 7 (''::ffff:'' @ r)) = ''::ffff:''"
  by (simp add: toLowerCase_def lower_char_def)

lemma colon_not_hex: "\<not> isHexDigit (CHR '':'')"
  by (simp add: isHexDigit_def)

lemma dot_not_hex: "\<not> isHexDigit (CHR ''.'')"
  by (simp add: isHexDigit_def)

lemma dot_not_digit: "\<not> isDigit (CHR ''.'')"
  by (simp add: isDigit_def)

lemma digit_is_hex: "isDigit c \<Longrightarrow> isHexDigit c"
  by (auto simp: isDigit_def isHexDigit_def)

lemma match_mapped_hex_groups:
  assumes "hex_group g1" and "hex_group g2"
  shows "match_mapped_hex (''::ffff:'' @ g1 @ '':'' @ g2) = Some (g1, g2)"
proof -
  have all1: "\<forall>c\<in>set g1. isHexDigit c"
    using assms(1) by (simp add: hex_group_def list_all_iff)
  have tw: "takeWhile isHexDigit (g1 @ CHR '':'' # g2) = g1"
    using all1 colon_not_hex by (simp add: takeWhile_tail)
  have dw: "dropWhile isHexDigit (g1 @ CHR '':'' # g2) = CHR '':'' # g2"
    using all1 colon_not_hex by (simp add: dropWhile_append3)
  show ?thesis
    unfolding match_mapped_hex_def
    using assms tw dw lower_prefix7 [of "g1 @ '':'' @ g2"]
    by (simp add: hex_group_def Let_def)
qed

lemma split_on_head: "d \<notin> set p \<Longrightarrow> split_on d (p @ d # rest) = p # split_on d rest"
  by (induction p) (auto split: list.splits)

lemma split_on_last: "d \<notin> set p \<Longrightarrow> split_on d p = [p]"
  by (induction p) (auto split: list.splits)

lemma digit_group_no_dot: "digit_group g \<Longrightarrow> CHR ''.'' \<notin> set g"
  using dot_not_digit by (auto simp: digit_group_def list_all_iff)

lemma match_mapped_dotted_groups:
  assumes "digit_group d1" "digit_group d2" "digit_group d3" "digit_group d4"
  shows "match_mapped_dotted (''::ffff:'' @ d1 @ ''.'' @ d2 @ ''.'' @ d3 @ ''.'' @ d4)
         = Some (d1 @ ''.'' @ d2 @ ''.'' @ d3 @ ''.'' @ d4)"
proof -
  have "split_on (CHR ''.'') (d1 @ ''.'' @ d2 @ ''.'' @ d3 @ ''.'' @ d4) = [d1, d2, d3, d4]"
    using assms by (simp add: split_on_head split_on_last digit_group_no_dot)
  then show ?thesis
    unfolding match_mapped_dotted_def
    using assms lower_prefix7 [of "d1 @ ''.'' @ d2 @ ''.'' @ d3 @ ''.'' @ d4"]
    by (simp add: digit_group_def Let_def)
qed

lemma match_mapped_hex_dotted:
  assumes "digit_group d1"
  shows "match_mapped_hex (''::ffff:'' @ d1 @ ''.'' @ r) = None"
proof -
  have all1: "\<forall>c\<in>set d1. isHexDigit c"
    using assms digit_is_hex by (auto simp: digit_group_def list_all_iff)
  have dw: "dropWhile isHexDigit (d1 @ CHR ''.'' # r) = CHR ''.'' # r"
    using all1 dot_not_hex by (simp add: dropWhile_append3)
  show ?thesis
    unfolding match_mapped_hex_def
    using dw lower_prefix7 [of "d1 @ ''.'' @ r"]
    by (simp add: Let_def)
qed


lemma extractMappedIPv4_hex:
  assumes "hex_group g1" and "hex_group g2"
    and "h = ''['' @ ''::ffff:'' @ g1 @ '':'' @ g2 @ '']'' \<or> h = ''::ffff:'' @ g1 @ '':'' @ g2"
  shows "extractMappedIPv4 h = Some (quad_of_groups g1 g2)"
proof -
  have m: "match_mapped_hex (''::ffff:'' @ g1 @ '':'' @ g2) = Some (g1, g2)"
    using assms(1,2) by (rule match_mapped_hex_groups)
  have b: "(if prefix ''['' h then slice_1_m1 h else h) = ''::ffff:'' @ g1 @ '':'' @ g2"
    using assms(3) by (auto simp: slice_1_m1_def butlast_append)
  show ?thesis
    unfolding extractMappedIPv4_def b Let_def m
    by (simp add: quad_of_groups_def byte_lo drop_bit_eq_div)
qed

lemma extractMappedIPv4_dotted:
  assumes "digit_group d1" "digit_group d2" "digit_group d3" "digit_group d4"
    and "ip = d1 @ ''.'' @ d2 @ ''.'' @ d3 @ ''.'' @ d4"
    and "h = ''['' @ ''::ffff:'' @ ip @ '']'' \<or> h = ''::ffff:'' @ ip"
  shows "extractMappedIPv4 h = Some ip"
proof -
  have mh: "match_mapped_hex (''::ffff:'' @ ip) = None"
    unfolding assms(5) using assms(1) by (rule match_mapped_hex_dotted)
  have md: "match_mapped_dotted (''::ffff:'' @ ip) = Some ip"
    unfolding assms(5) using assms(1-4) by (rule match_mapped_dotted_groups)
  have b: "(if prefix ''['' h then slice_1_m1 h else h) = ''::ffff:'' @ ip"
    using assms(6) by (auto simp: slice_1_m1_def butlast_append)
  show ?thesis
    unfolding extractMappedIPv4_def b Let_def mh md by simp
qed

lemma private_ip_nonempty:
  "ip \<in> set PRIVATE_HOSTS \<or> has_private_prefix ip \<Longrightarrow> ip \<noteq> []"
  by (auto simp: PRIVATE_HOSTS_def has_private_prefix_def PRIVATE_CIDR_PREFIXES_def)

lemma mapped_hit_is_private:
  assumes "extractMappedIPv4 (toLowerCase (hostname u)) = Some ip"
    and "ip \<in> set PRIVATE_HOSTS \<or> has_private_prefix ip"
  shows "isPrivateUrl_parsed isIP u"
  using assms private_ip_nonempty [OF assms(2)]
  unfolding isPrivateUrl_parsed_def Let_def
  by auto

text \<open>
  C3. A URL with scheme http or https whose host name is an IPv4-mapped IPv6 literal,
  \<open>::ffff:\<close> followed by two groups of one to four hexadecimal digits or by a dotted quad
  (in brackets, as the URL constructor presents an IPv6 literal, or bare), is classified
  private whenever the embedded IPv4 address is on the deny list or begins with a reserved
  prefix. For the two-group form the embedded address is the dotted quad of the four bytes
  of the groups.
\<close>

theorem mapped_ipv4_private:
  assumes "newURL urlStr = Some u"
    and "protocol u = ''http:'' \<or> protocol u = ''https:''"
    and "toLowerCase (hostname u) = ''['' @ ''::ffff:'' @ emb @ '']'' \<or>
         toLowerCase (hostname u) = ''::ffff:'' @ emb"
    and "(hex_group g1 \<and> hex_group g2 \<and> emb = g1 @ '':'' @ g2 \<and> ip = quad_of_groups g1 g2) \<or>
         (digit_group d1 \<and> digit_group d2 \<and> digit_group d3 \<and> digit_group d4 \<and>
          emb = d1 @ ''.'' @ d2 @ ''.'' @ d3 @ ''.'' @ d4 \<and> ip = emb)"
    and "ip \<in> set PRIVATE_HOSTS \<or> has_private_prefix ip"
  shows "isPrivateUrl newURL isIP urlStr"
proof -
  have "extractMappedIPv4 (toLowerCase (hostname u)) = Some ip"
    using assms(4)
  proof
    assume a: "hex_group g1 \<and> hex_group g2 \<and> emb = g1 @ '':'' @ g2 \<and> ip = quad_of_groups g1 g2"
    then show ?thesis
      using assms(3) extractMappedIPv4_hex [of g1 g2 "toLowerCase (hostname u)"] by auto
  next
    assume a: "digit_group d1 \<and> digit_group d2 \<and> digit_group d3 \<and> digit_group d4 \<and>
          emb = d1 @ ''.'' @ d2 @ ''.'' @ d3 @ ''.'' @ d4 \<and> ip = emb"
    then show ?thesis
      using assms(3) extractMappedIPv4_dotted [of d1 d2 d3 d4 ip "toLowerCase (hostname u)"] by auto
  qed
  then have "isPrivateUrl_parsed isIP u"
    using assms(5) by (rule mapped_hit_is_private)
  then show ?thesis
    using assms(1) by (simp add: isPrivateUrl_def)
qed

lemma quad_7f00_1: "quad_of_groups ''7f00'' ''1'' = ''127.0.0.1''"
  by (simp add: quad_of_groups_def parseHex_def digit_val_def show_nat.simps digit_char_def)


theorem mapped_ipv4_private_witness:
  "newURL_table ''http://[::ffff:7f00:1]/'' = Some \<lparr>protocol = ''http:'', hostname = ''[::ffff:7f00:1]''\<rparr> \<and>
   isPrivateUrl newURL_table isIP_mock ''http://[::ffff:7f00:1]/'' \<and>
   newURL_table ''https://[::FFFF:127.0.0.1]/'' =
     Some \<lparr>protocol = ''https:'', hostname = ''[::ffff:7f00:1]''\<rparr> \<and>
   isPrivateUrl newURL_table isIP_mock ''https://[::FFFF:127.0.0.1]/''"
proof -
  have t1: "newURL_table ''http://[::ffff:7f00:1]/'' =
      Some \<lparr>protocol = ''http:'', hostname = ''[::ffff:7f00:1]''\<rparr>"
    by (simp add: newURL_table_def)
  have t2: "newURL_table ''https://[::FFFF:127.0.0.1]/'' =
      Some \<lparr>protocol = ''https:'', hostname = ''[::ffff:7f00:1]''\<rparr>"
    by (simp add: newURL_table_def)
  have denied: "''127.0.0.1'' \<in> set PRIVATE_HOSTS \<or> has_private_prefix ''127.0.0.1''"
    by (simp add: PRIVATE_HOSTS_def)
  have p1: "protocol \<lparr>protocol = ''http:'', hostname = ''[::ffff:7f00:1]''\<rparr> = ''http:'' \<or>
      protocol \<lparr>protocol = ''http:'', hostname = ''[::ffff:7f00:1]''\<rparr> = ''https:''"
    by simp
  have h1: "toLowerCase (hostname \<lparr>protocol = ''http:'', hostname = ''[::ffff:7f00:1]''\<rparr>) =
        ''['' @ ''::ffff:'' @ ''7f00:1'' @ '']'' \<or>
      toLowerCase (hostname \<lparr>protocol = ''http:'', hostname = ''[::ffff:7f00:1]''\<rparr>) =
        ''::ffff:'' @ ''7f00:1''"
    by (simp add: toLowerCase_def lower_char_def)
  have e1: "(hex_group ''7f00'' \<and> hex_group ''1'' \<and> ''7f00:1'' = ''7f00'' @ '':'' @ ''1'' \<and>
       ''127.0.0.1'' = quad_of_groups ''7f00'' ''1'') \<or>
      (digit_group [] \<and> digit_group [] \<and> digit_group [] \<and> digit_group [] \<and>
       ''7f00:1'' = [] @ ''.'' @ [] @ ''.'' @ [] @ ''.'' @ [] \<and> ''127.0.0.1'' = ''7f00:1'')"
    by (simp add: hex_group_def isHexDigit_def quad_7f00_1)
  have w1: "isPrivateUrl newURL_table isIP_mock ''http://[::ffff:7f00:1]/''"
    using mapped_ipv4_private [where newURL = newURL_table and isIP = isIP_mock
        and urlStr = "''http://[::ffff:7f00:1]/''"
        and u = "\<lparr>protocol = ''http:'', hostname = ''[::ffff:7f00:1]''\<rparr>"
        and emb = "''7f00:1''" and ?g1.0 = "''7f00''" and ?g2.0 = "''1''"
        and ?d1.0 = "[]" and ?d2.0 = "[]" and ?d3.0 = "[]" and ?d4.0 = "[]"
        and ip = "''127.0.0.1''", OF t1 p1 h1 e1 denied] .
  have p2: "protocol \<lparr>protocol = ''https:'', hostname = ''[::ffff:7f00:1]''\<rparr> = ''http:'' \<or>
      protocol \<lparr>protocol = ''https:'', hostname = ''[::ffff:7f00:1]''\<rparr> = ''https:''"
    by simp
  have h2: "toLowerCase (hostname \<lparr>protocol = ''https:'', hostname = ''[::ffff:7f00:1]''\<rparr>) =
        ''['' @ ''::ffff:'' @ ''7f00:1'' @ '']'' \<or>
      toLowerCase (hostname \<lparr>protocol = ''https:'', hostname = ''[::ffff:7f00:1]''\<rparr>) =
        ''::ffff:'' @ ''7f00:1''"
    by (simp add: toLowerCase_def lower_char_def)
  have w2: "isPrivateUrl newURL_table isIP_mock ''https://[::FFFF:127.0.0.1]/''"
    using mapped_ipv4_private [where newURL = newURL_table and isIP = isIP_mock
        and urlStr = "''https://[::FFFF:127.0.0.1]/''"
        and u = "\<lparr>protocol = ''https:'', hostname = ''[::ffff:7f00:1]''\<rparr>"
        and emb = "''7f00:1''" and ?g1.0 = "''7f00''" and ?g2.0 = "''1''"
        and ?d1.0 = "[]" and ?d2.0 = "[]" and ?d3.0 = "[]" and ?d4.0 = "[]"
        and ip = "''127.0.0.1''", OF t2 p2 h2 e1 denied] .
  show ?thesis
    using t1 t2 w1 w2 by simp
qed















text \<open>
  C4. \<open>filterResults\<close> returns exactly the results whose URL is not private, in their
  original order and unchanged: its value is a subsequence of the input, it retains no
  private result, and it drops nothing but the private ones (the retained and the private
  results add up to the input).
\<close>

theorem filterResults_exact_subsequence:
  "subseq (filterResults newURL isIP results) results \<and>
   filter (\<lambda>r. isPrivateUrl newURL isIP (url r)) (filterResults newURL isIP results) = [] \<and>
   length (filterResults newURL isIP results) +
     length (filter (\<lambda>r. isPrivateUrl newURL isIP (url r)) results) = length results"
proof -
  have "length (filterResults newURL isIP results) +
     length (filter (\<lambda>r. isPrivateUrl newURL isIP (url r)) results) = length results"
    unfolding filterResults_def
    using sum_length_filter_compl [of "\<lambda>r. isPrivateUrl newURL isIP (url r)" results] by simp
  then show ?thesis
    by (simp add: filterResults_def)
qed

section \<open>Claims about the fallback orchestrator\<close>

lemma handler_loop_append:
  "handler_loop pf config q c (pre @ suf) errs st =
     (case handler_loop pf config q c pre errs st of
        (Inr s, st') \<Rightarrow> (Inr s, st')
      | (Inl errs', st') \<Rightarrow> handler_loop pf config q c suf errs' st')"
proof (induction pre arbitrary: errs st)
  case Nil
  show ?case by simp
next
  case (Cons p pre)
  show ?case
    by (simp add: Cons.IH Let_def split: option.splits prod.splits bool.splits sum.splits)
qed

lemma handler_loop_success_head:
  assumes "buildProvider (process_env pf) p config = Some inst"
    and "consumeToken (Date_now pf) p st = (True, st1)"
    and "provider_search pf (length (searched st1)) inst q c = Inr raw"
  shows "handler_loop pf config q c (p # rest) errs st =
         (Inr (p, filterResults (URL_ctor pf) (net_isIP pf) raw), st1\<lparr>searched := searched st1 @ [p]\<rparr>)"
  using assms by (simp add: Let_def)

text \<open>
  C5. At whatever place of the candidate order the handler stands, once every earlier
  candidate has been skipped or has failed: when the provider is configured, a token is
  granted and the backend call returns, the handler filters the results and returns Success
  naming that provider. The result and the final state do not depend on the candidates after
  it (no bucket of theirs is created, no backend of theirs is called), and the filtered list
  may be empty.
\<close>

theorem handler_first_success_wins:
  assumes "candidate_order (arg_provider args) config = pre @ p # rest"
    and "handler_loop pf config (arg_query args) (clamp_count (arg_count args)) pre [] st = (Inl errs, st0)"
    and "buildProvider (process_env pf) p config = Some inst"
    and "consumeToken (Date_now pf) p st0 = (True, st1)"
    and "provider_search pf (length (searched st1)) inst (arg_query args) (clamp_count (arg_count args)) = Inr raw"
  shows "handler pf config args st =
         (Success p (arg_query args) (length (filterResults (URL_ctor pf) (net_isIP pf) raw))
            (filterResults (URL_ctor pf) (net_isIP pf) raw),
          st1\<lparr>searched := searched st1 @ [p]\<rparr>)"
  unfolding handler_def Let_def assms(1) handler_loop_append assms(2)
  using handler_loop_success_head [OF assms(3,4,5)]
  by simp

lemma example_consume_brave:
  "consumeToken (Date_now example_platform) ''brave'' init_state =
     (True, \<lparr>rateBuckets = [''brave'' \<mapsto> bucket_at 9 1700000000000], ticks = 2, searched = []\<rparr>)"
  by (simp add: consumeToken_def getRateBucket_def consumeToken_bucket_def example_platform_def
      init_state_def bucket_at_def Let_def)

lemma example_build_google: "buildProvider (process_env example_platform) ''google'' default_config = None"
  by (simp add: buildProvider_def example_platform_def example_env_def default_config_def nullish_def Let_def)

lemma example_build_brave:
  "buildProvider (process_env example_platform) ''brave'' default_config = Some (BraveSearchProvider ''test-brave-key'')"
  by (simp add: buildProvider_def example_platform_def example_env_def default_config_def nullish_def truthy_def Let_def)

lemma example_build_xai:
  "buildProvider (process_env example_platform) ''xai'' default_config = Some (XaiSearchProvider ''test-xai-key'')"
  by (simp add: buildProvider_def example_platform_def example_env_def default_config_def nullish_def truthy_def Let_def)

lemma example_loopback_private: "isPrivateUrl newURL_table isIP_mock ''http://127.0.0.1/secret''"
  by (simp add: isPrivateUrl_def newURL_table_def isPrivateUrl_parsed_def toLowerCase_def lower_char_def
      PRIVATE_HOSTS_def Let_def)

lemma example_filter_brave:
  "filterResults (URL_ctor example_platform) (net_isIP example_platform)
     [\<lparr>title = ''Bad'', url = ''http://127.0.0.1/secret'', snippet = ''Private''\<rparr>] = []"
  by (simp add: filterResults_def example_platform_def example_loopback_private)

theorem handler_first_success_wins_witness:
  "handler example_platform default_config
      \<lparr>arg_query = ''test'', arg_count = None, arg_provider = None\<rparr> init_state =
     (Success ''brave'' ''test'' 0 [],
      \<lparr>rateBuckets = [''brave'' \<mapsto> bucket_at 9 1700000000000], ticks = 2, searched = [''brave'']\<rparr>)"
proof -
  let ?args = "\<lparr>arg_query = ''test'', arg_count = None, arg_provider = None\<rparr>"
  let ?st1 = "\<lparr>rateBuckets = [''brave'' \<mapsto> bucket_at 9 1700000000000], ticks = 2, searched = []\<rparr>"
  have o: "candidate_order (arg_provider ?args) default_config = [''google''] @ ''brave'' # [''xai'']"
    by (simp add: candidate_order_def getProviderOrder_def default_config_def DEFAULT_PROVIDER_ORDER_def)
  have l: "handler_loop example_platform default_config (arg_query ?args) (clamp_count (arg_count ?args))
             [''google''] [] init_state = (Inl [''google: not configured''], init_state)"
    by (simp add: example_build_google)
  have s: "provider_search example_platform (length (searched ?st1)) (BraveSearchProvider ''test-brave-key'')
             (arg_query ?args) (clamp_count (arg_count ?args)) =
           Inr [\<lparr>title = ''Bad'', url = ''http://127.0.0.1/secret'', snippet = ''Private''\<rparr>]"
    by (simp add: example_platform_def example_search_def)
  show ?thesis
    using handler_first_success_wins [OF o l example_build_brave example_consume_brave s]
    by (simp add: example_filter_brave)
qed

lemma forced_order: "p \<noteq> [] \<Longrightarrow> candidate_order (Some p) config = [p]"
  by (simp add: candidate_order_def)

lemma handler_forced:
  "p \<noteq> [] \<Longrightarrow>
   handler pf config \<lparr>arg_query = q, arg_count = rc, arg_provider = Some p\<rparr> st =
     (case handler_loop pf config q (clamp_count rc) [p] [] st of
        (Inr (providerName, results), st') \<Rightarrow> (Success providerName q (length results) results, st')
      | (Inl errors, st') \<Rightarrow> (Failure (failure_text errors), st'))"
  by (simp add: handler_def forced_order Let_def)

lemma getProviderOrder_configured:
  "providerOrder config = Some order \<Longrightarrow> order \<noteq> [] \<Longrightarrow>
   getProviderOrder config = filter (\<lambda>n. n \<in> {''google'', ''brave'', ''xai''}) order"
  by (simp add: getProviderOrder_def)

lemma getProviderOrder_default:
  "providerOrder config = None \<or> providerOrder config = Some [] \<Longrightarrow>
   getProviderOrder config = [''google'', ''brave'', ''xai'']"
  by (auto simp: getProviderOrder_def DEFAULT_PROVIDER_ORDER_def)

text \<open>
  C6. A forced provider (a non-empty name) makes the candidate order the one-element
  sequence of that provider, and nothing falls back: when the forced provider is not
  configured, is rate limited, or its backend throws, the handler returns the error result
  with that single diagnostic, whatever else is configured. With no forced provider the
  order is the configured one restricted to google, brave and xai, and the default
  google, brave, xai when the configured order is absent or empty.
\<close>

theorem forced_provider_no_fallback:
  "(p \<noteq> [] \<longrightarrow> candidate_order (Some p) config = [p]) \<and>
   (p \<noteq> [] \<and> buildProvider (process_env pf) p config = None \<longrightarrow>
      handler pf config \<lparr>arg_query = q, arg_count = rc, arg_provider = Some p\<rparr> st =
        (Failure (failure_text [p @ '': not configured'']), st)) \<and>
   (p \<noteq> [] \<and> buildProvider (process_env pf) p config = Some inst \<and>
    consumeToken (Date_now pf) p st = (False, st1) \<longrightarrow>
      handler pf config \<lparr>arg_query = q, arg_count = rc, arg_provider = Some p\<rparr> st =
        (Failure (failure_text [p @ '': rate limited'']), st1)) \<and>
   (p \<noteq> [] \<and> buildProvider (process_env pf) p config = Some inst \<and>
    consumeToken (Date_now pf) p st = (True, st1) \<and>
    provider_search pf (length (searched st1)) inst q (clamp_count rc) = Inl msg \<longrightarrow>
      handler pf config \<lparr>arg_query = q, arg_count = rc, arg_provider = Some p\<rparr> st =
        (Failure (failure_text [p @ '': '' @ msg]), st1\<lparr>searched := searched st1 @ [p]\<rparr>)) \<and>
   candidate_order None config = getProviderOrder config \<and>
   (providerOrder config = Some order \<and> order \<noteq> [] \<longrightarrow>
      getProviderOrder config = filter (\<lambda>n. n \<in> {''google'', ''brave'', ''xai''}) order) \<and>
   (providerOrder config = None \<or> providerOrder config = Some [] \<longrightarrow>
      getProviderOrder config = [''google'', ''brave'', ''xai''])"
proof (intro conjI impI)
  show "candidate_order None config = getProviderOrder config"
    by (simp add: candidate_order_def)
qed (auto simp: forced_order handler_forced getProviderOrder_configured getProviderOrder_default Let_def)

lemma example_consume_exhausted:
  "consumeToken (Date_now example_platform) ''brave'' exhausted_state =
     (False, \<lparr>rateBuckets = [''brave'' \<mapsto> bucket_at 0 1700000000000], ticks = 12, searched = []\<rparr>)"
  by (simp add: consumeToken_def getRateBucket_def consumeToken_bucket_def example_platform_def
      exhausted_state_def bucket_at_def Let_def)

theorem forced_provider_no_fallback_witness:
  "handler example_platform default_config
      \<lparr>arg_query = ''test'', arg_count = None, arg_provider = Some ''google''\<rparr> init_state =
     (Failure (failure_text [''google: not configured'']), init_state) \<and>
   handler example_platform default_config
      \<lparr>arg_query = ''test'', arg_count = None, arg_provider = Some ''brave''\<rparr> exhausted_state =
     (Failure (failure_text [''brave: rate limited'']),
      \<lparr>rateBuckets = [''brave'' \<mapsto> bucket_at 0 1700000000000], ticks = 12, searched = []\<rparr>) \<and>
   handler (example_platform\<lparr>provider_search := failing_search\<rparr>) default_config
      \<lparr>arg_query = ''test'', arg_count = None, arg_provider = Some ''brave''\<rparr> init_state =
     (Failure (failure_text [''brave: Brave Search API returned 500: Server Error'']),
      \<lparr>rateBuckets = [''brave'' \<mapsto> bucket_at 9 1700000000000], ticks = 2, searched = [''brave'']\<rparr>) \<and>
   getProviderOrder (default_config\<lparr>providerOrder := Some [''xai'', ''bing'', ''brave'']\<rparr>) =
     [''xai'', ''brave''] \<and>
   getProviderOrder default_config = [''google'', ''brave'', ''xai'']"
proof -
  have a: "handler example_platform default_config
      \<lparr>arg_query = ''test'', arg_count = None, arg_provider = Some ''google''\<rparr> init_state =
     (Failure (failure_text [''google: not configured'']), init_state)"
    using forced_provider_no_fallback [where p = "''google''" and pf = example_platform
        and config = default_config and q = "''test''" and rc = None and st = init_state]
      example_build_google
    by simp
  have b: "handler example_platform default_config
      \<lparr>arg_query = ''test'', arg_count = None, arg_provider = Some ''brave''\<rparr> exhausted_state =
     (Failure (failure_text [''brave: rate limited'']),
      \<lparr>rateBuckets = [''brave'' \<mapsto> bucket_at 0 1700000000000], ticks = 12, searched = []\<rparr>)"
    using forced_provider_no_fallback [where p = "''brave''" and pf = example_platform
        and config = default_config and q = "''test''" and rc = None and st = exhausted_state
        and inst = "BraveSearchProvider ''test-brave-key''"
        and ?st1.0 = "\<lparr>rateBuckets = [''brave'' \<mapsto> bucket_at 0 1700000000000], ticks = 12, searched = []\<rparr>"]
      example_build_brave example_consume_exhausted
    by simp
  have build': "buildProvider (process_env (example_platform\<lparr>provider_search := failing_search\<rparr>))
      ''brave'' default_config = Some (BraveSearchProvider ''test-brave-key'')"
    using example_build_brave by simp
  have consume': "consumeToken (Date_now (example_platform\<lparr>provider_search := failing_search\<rparr>))
      ''brave'' init_state =
     (True, \<lparr>rateBuckets = [''brave'' \<mapsto> bucket_at 9 1700000000000], ticks = 2, searched = []\<rparr>)"
    using example_consume_brave by simp
  have c: "handler (example_platform\<lparr>provider_search := failing_search\<rparr>) default_config
      \<lparr>arg_query = ''test'', arg_count = None, arg_provider = Some ''brave''\<rparr> init_state =
     (Failure (failure_text [''brave: Brave Search API returned 500: Server Error'']),
      \<lparr>rateBuckets = [''brave'' \<mapsto> bucket_at 9 1700000000000], ticks = 2, searched = [''brave'']\<rparr>)"
    using forced_provider_no_fallback [where p = "''brave''"
        and pf = "example_platform\<lparr>provider_search := failing_search\<rparr>"
        and config = default_config and q = "''test''" and rc = None and st = init_state
        and inst = "BraveSearchProvider ''test-brave-key''"
        and ?st1.0 = "\<lparr>rateBuckets = [''brave'' \<mapsto> bucket_at 9 1700000000000], ticks = 2, searched = []\<rparr>"
        and msg = "''Brave Search API returned 500: Server Error''"]
      build' consume'
    by (simp add: failing_search_def)
  have d: "getProviderOrder (default_config\<lparr>providerOrder := Some [''xai'', ''bing'', ''brave'']\<rparr>) =
     [''xai'', ''brave'']"
    using forced_provider_no_fallback [where
        config = "default_config\<lparr>providerOrder := Some [''xai'', ''bing'', ''brave'']\<rparr>"
        and order = "[''xai'', ''bing'', ''brave'']"]
    by simp
  have e: "getProviderOrder default_config = [''google'', ''brave'', ''xai'']"
    using forced_provider_no_fallback [where config = default_config]
    by (simp add: default_config_def)
  show ?thesis
    using a b c d e by simp
qed

lemma unknown_not_built:
  "p \<notin> {''google'', ''brave'', ''xai''} \<Longrightarrow> buildProvider env p config = None"
  by (simp add: buildProvider_def)

lemma failure_text_single:
  "failure_text [d] =
     ''All search providers failed:'' @ newline @ ''  - '' @ d @ newline @ newline @
     ''Configure at least one provider via environment variables or config:'' @ newline @
     ''  GOOGLE_SEARCH_API_KEY + GOOGLE_SEARCH_CX'' @ newline @
     ''  BRAVE_SEARCH_API_KEY'' @ newline @
     ''  XAI_API_KEY''"
  by (simp add: failure_text_def)

text \<open>
  C10. A forced provider name (non-empty) outside google, brave and xai: the handler does
  not throw and does not fall back; \<open>buildProvider\<close> returns null, the state is untouched,
  and the result is the error result whose only diagnostic line is the name followed by
  \<open>: not configured\<close>.
\<close>

theorem forced_unknown_provider:
  assumes "p \<noteq> []" and "p \<notin> {''google'', ''brave'', ''xai''}"
  shows "buildProvider (process_env pf) p config = None \<and>
         handler pf config \<lparr>arg_query = q, arg_count = rc, arg_provider = Some p\<rparr> st =
           (Failure (failure_text [p @ '': not configured'']), st) \<and>
         failure_text [p @ '': not configured''] =
           ''All search providers failed:'' @ newline @ ''  - '' @ p @ '': not configured'' @
           newline @ newline @
           ''Configure at least one provider via environment variables or config:'' @ newline @
           ''  GOOGLE_SEARCH_API_KEY + GOOGLE_SEARCH_CX'' @ newline @
           ''  BRAVE_SEARCH_API_KEY'' @ newline @
           ''  XAI_API_KEY''"
  using assms unknown_not_built [OF assms(2), of "process_env pf" config]
  by (simp add: handler_forced failure_text_single)

theorem forced_unknown_provider_witness:
  "handler example_platform default_config
      \<lparr>arg_query = ''test'', arg_count = None, arg_provider = Some ''bing''\<rparr> init_state =
     (Failure (failure_text [''bing: not configured'']), init_state)"
proof -
  have n: "''bing'' \<noteq> []"
    by simp
  have u: "''bing'' \<notin> {''google'', ''brave'', ''xai''}"
    by simp
  show ?thesis
    using forced_unknown_provider [OF n u, of example_platform default_config "''test''" None init_state]
    by simp
qed




section \<open>Claims about the rate limiter\<close>

lemma consumeToken_fresh:
  assumes "rateBuckets st p = None"
  shows "consumeToken clock p st =
     (fst (consumeToken_bucket (clock (Suc (ticks st))) (bucket_at 10 (clock (ticks st)))),
      st\<lparr>rateBuckets := (rateBuckets st)(p \<mapsto>
            snd (consumeToken_bucket (clock (Suc (ticks st))) (bucket_at 10 (clock (ticks st))))),
         ticks := Suc (Suc (ticks st))\<rparr>)"
  using assms
  by (simp add: consumeToken_def getRateBucket_def bucket_at_def Let_def split: prod.splits)

lemma consumeToken_existing:
  assumes "rateBuckets st p = Some b"
  shows "consumeToken clock p st =
     (fst (consumeToken_bucket (clock (ticks st)) b),
      st\<lparr>rateBuckets := (rateBuckets st)(p \<mapsto> snd (consumeToken_bucket (clock (ticks st)) b)),
         ticks := Suc (ticks st)\<rparr>)"
  using assms
  by (simp add: consumeToken_def getRateBucket_def Let_def split: prod.splits)

lemma bucket_take:
  assumes "Suc m \<le> 10"
  shows "consumeToken_bucket t (bucket_at (of_nat (Suc m)) t) = (True, bucket_at (of_nat m) t)"
proof -
  have "(of_nat (Suc m) :: rat) \<le> of_nat 10"
    using assms by (simp only: of_nat_le_iff)
  then have le: "1 + (of_nat m :: rat) \<le> 10"
    by simp
  have ge: "\<not> 1 + (of_nat m :: rat) < 1"
    by simp
  show ?thesis
    using le ge by (simp add: consumeToken_bucket_def bucket_at_def Let_def min_def)
qed

lemma bucket_refuse: "consumeToken_bucket t (bucket_at 0 t) = (False, bucket_at 0 t)"
  by (simp add: consumeToken_bucket_def bucket_at_def Let_def)

lemma bucket_refill_one: "consumeToken_bucket (t + 100) (bucket_at 0 t) = (True, bucket_at 0 (t + 100))"
  by (simp add: consumeToken_bucket_def bucket_at_def Let_def)

lemma consumeTokens_append:
  "consumeTokens clock (xs @ ys) st =
     (fst (consumeTokens clock xs st) @ fst (consumeTokens clock ys (snd (consumeTokens clock xs st))),
      snd (consumeTokens clock ys (snd (consumeTokens clock xs st))))"
  by (induction xs arbitrary: st) (simp_all add: Let_def split: prod.splits)

lemma burst:
  assumes "rateBuckets st p = Some (bucket_at (of_nat n) t)"
    and "k \<le> n" and "n \<le> 10"
    and "\<forall>j<k. clock (ticks st + j) = t"
  shows "consumeTokens clock (replicate k p) st =
     (replicate k True,
      st\<lparr>rateBuckets := (rateBuckets st)(p \<mapsto> bucket_at (of_nat (n - k)) t),
         ticks := ticks st + k\<rparr>)"
  using assms
proof (induction k arbitrary: st n)
  case 0
  then show ?case
    by (simp add: map_upd_triv)
next
  case (Suc k)
  from Suc.prems(2) obtain m where n: "n = Suc m"
    by (cases n) auto
  have now: "clock (ticks st) = t"
    using Suc.prems(4) by (metis add.right_neutral zero_less_Suc)
  let ?st1 = "st\<lparr>rateBuckets := (rateBuckets st)(p \<mapsto> bucket_at (of_nat m) t), ticks := Suc (ticks st)\<rparr>"
  have step: "consumeToken clock p st = (True, ?st1)"
    using Suc.prems(1,3) n now bucket_take [of m t]
    by (simp add: consumeToken_existing)
  have later: "\<forall>j<k. clock (ticks ?st1 + j) = t"
  proof (intro allI impI)
    fix j assume "j < k"
    then have "Suc j < Suc k" by simp
    then have "clock (ticks st + Suc j) = t" using Suc.prems(4) by blast
    then show "clock (ticks ?st1 + j) = t" by simp
  qed
  have rest: "consumeTokens clock (replicate k p) ?st1 =
     (replicate k True,
      ?st1\<lparr>rateBuckets := (rateBuckets ?st1)(p \<mapsto> bucket_at (of_nat (m - k)) t),
           ticks := ticks ?st1 + k\<rparr>)"
    using Suc.prems(2,3) n later by (intro Suc.IH) simp_all
  have same: "?st1\<lparr>rateBuckets := (rateBuckets ?st1)(p \<mapsto> bucket_at (of_nat (m - k)) t),
           ticks := ticks ?st1 + k\<rparr> =
        st\<lparr>rateBuckets := (rateBuckets st)(p \<mapsto> bucket_at (of_nat (n - Suc k)) t),
           ticks := ticks st + Suc k\<rparr>"
    using n by simp
  have "consumeTokens clock (replicate (Suc k) p) st =
      (True # replicate k True,
       ?st1\<lparr>rateBuckets := (rateBuckets ?st1)(p \<mapsto> bucket_at (of_nat (m - k)) t),
           ticks := ticks ?st1 + k\<rparr>)"
    by (simp only: replicate_Suc consumeTokens.simps step rest Let_def prod.case)
  then show ?case
    by (simp only: same replicate_Suc)
qed


lemma single_step:
  assumes "rateBuckets s p = Some b"
    and "consumeToken_bucket (clock (ticks s)) b = (ok, b')"
  shows "consumeTokens clock [p] s =
     ([ok], s\<lparr>rateBuckets := (rateBuckets s)(p \<mapsto> b'), ticks := Suc (ticks s)\<rparr>)"
  using assms by (simp add: consumeToken_existing Let_def)

text \<open>
  C8. A bucket created by the first call (10 tokens, capacity 10, 10 tokens per second):
  with the clock standing still, the first ten \<open>consumeToken\<close> calls answer true and leave
  no token, the eleventh answers false and consumes nothing; 100 ms later (one token's worth
  of refill) exactly one call answers true, and the next call at that same instant answers
  false again. The first call takes two readings of the clock, one for the creation.
\<close>

theorem token_bucket_burst_then_refill:
  assumes "rateBuckets st p = None"
    and "\<forall>j<12. clock (ticks st + j) = t"
    and "clock (ticks st + 12) = t + 100"
    and "clock (ticks st + 13) = t + 100"
  shows "fst (consumeTokens clock (replicate 13 p) st) = replicate 10 True @ [False, True, False] \<and>
         rateBuckets (snd (consumeTokens clock (replicate 10 p) st)) p = Some (bucket_at 0 t) \<and>
         rateBuckets (snd (consumeTokens clock (replicate 11 p) st)) p = Some (bucket_at 0 t) \<and>
         rateBuckets (snd (consumeTokens clock (replicate 12 p) st)) p = Some (bucket_at 0 (t + 100)) \<and>
         rateBuckets (snd (consumeTokens clock (replicate 13 p) st)) p = Some (bucket_at 0 (t + 100))"
proof -
  let ?s1 = "st\<lparr>rateBuckets := (rateBuckets st)(p \<mapsto> bucket_at 9 t), ticks := ticks st + 2\<rparr>"
  let ?s10 = "st\<lparr>rateBuckets := (rateBuckets st)(p \<mapsto> bucket_at 0 t), ticks := ticks st + 11\<rparr>"
  let ?s11 = "st\<lparr>rateBuckets := (rateBuckets st)(p \<mapsto> bucket_at 0 t), ticks := ticks st + 12\<rparr>"
  let ?s12 = "st\<lparr>rateBuckets := (rateBuckets st)(p \<mapsto> bucket_at 0 (t + 100)), ticks := ticks st + 13\<rparr>"
  let ?s13 = "st\<lparr>rateBuckets := (rateBuckets st)(p \<mapsto> bucket_at 0 (t + 100)), ticks := ticks st + 14\<rparr>"
  have c0: "clock (ticks st) = t" and c1: "clock (Suc (ticks st)) = t"
    and c11: "clock (ticks st + 11) = t"
    using assms(2) by (metis add.right_neutral zero_less_numeral,
        metis add.commute plus_1_eq_Suc one_less_numeral_iff semiring_norm(76),
        simp)
  have first: "consumeTokens clock [p] st = ([True], ?s1)"
    using bucket_take [of 9 t] c0 c1
    by (simp add: consumeToken_fresh [OF assms(1)] Let_def)
  have nine: "consumeTokens clock (replicate 9 p) ?s1 = (replicate 9 True, ?s10)"
  proof -
    have "\<forall>j<9. clock (ticks ?s1 + j) = t"
    proof (intro allI impI)
      fix j :: nat assume "j < 9"
      then have "j + 2 < 12" by simp
      then have "clock (ticks st + (j + 2)) = t" using assms(2) by blast
      then show "clock (ticks ?s1 + j) = t" by (simp add: add.commute add.left_commute)
    qed
    moreover have "rateBuckets ?s1 p = Some (bucket_at (of_nat 9) t)"
      by simp
    ultimately have "consumeTokens clock (replicate 9 p) ?s1 =
       (replicate 9 True,
        ?s1\<lparr>rateBuckets := (rateBuckets ?s1)(p \<mapsto> bucket_at (of_nat (9 - 9)) t),
            ticks := ticks ?s1 + 9\<rparr>)"
      by (intro burst) simp_all
    moreover have "?s1\<lparr>rateBuckets := (rateBuckets ?s1)(p \<mapsto> bucket_at (of_nat (9 - 9)) t),
            ticks := ticks ?s1 + 9\<rparr> = ?s10"
      by simp
    ultimately show ?thesis
      by (simp only:)
  qed
  have ten: "consumeTokens clock (replicate 10 p) st = (replicate 10 True, ?s10)"
  proof -
    have "replicate 10 p = [p] @ replicate 9 p"
      by (simp add: numeral_eq_Suc)
    then show ?thesis
      using first nine by (simp only: consumeTokens_append) (simp add: numeral_eq_Suc)
  qed
  have e11: "consumeTokens clock [p] ?s10 = ([False], ?s11)"
  proof -
    have "consumeTokens clock [p] ?s10 =
       ([False], ?s10\<lparr>rateBuckets := (rateBuckets ?s10)(p \<mapsto> bucket_at 0 t),
                      ticks := Suc (ticks ?s10)\<rparr>)"
      by (rule single_step [where b = "bucket_at 0 t"]) (simp_all add: c11 bucket_refuse)
    also have "\<dots> = ([False], ?s11)"
      by simp
    finally show ?thesis .
  qed
  have e12: "consumeTokens clock [p] ?s11 = ([True], ?s12)"
  proof -
    have "consumeTokens clock [p] ?s11 =
       ([True], ?s11\<lparr>rateBuckets := (rateBuckets ?s11)(p \<mapsto> bucket_at 0 (t + 100)),
                     ticks := Suc (ticks ?s11)\<rparr>)"
      by (rule single_step [where b = "bucket_at 0 t"]) (simp_all add: assms(3) bucket_refill_one)
    also have "\<dots> = ([True], ?s12)"
      by simp
    finally show ?thesis .
  qed
  have e13: "consumeTokens clock [p] ?s12 = ([False], ?s13)"
  proof -
    have "consumeTokens clock [p] ?s12 =
       ([False], ?s12\<lparr>rateBuckets := (rateBuckets ?s12)(p \<mapsto> bucket_at 0 (t + 100)),
                      ticks := Suc (ticks ?s12)\<rparr>)"
      by (rule single_step [where b = "bucket_at 0 (t + 100)"]) (simp_all add: assms(4) bucket_refuse)
    also have "\<dots> = ([False], ?s13)"
      by simp
    finally show ?thesis .
  qed
  have eleven: "consumeTokens clock (replicate 11 p) st = (replicate 10 True @ [False], ?s11)"
  proof -
    have "replicate 11 p = replicate 10 p @ [p]"
      by (simp add: numeral_eq_Suc replicate_append_same)
    then show ?thesis
      using ten e11 by (simp only: consumeTokens_append fst_conv snd_conv)
  qed
  have twelve: "consumeTokens clock (replicate 12 p) st = (replicate 10 True @ [False, True], ?s12)"
  proof -
    have "replicate 12 p = replicate 11 p @ [p]"
      by (simp add: numeral_eq_Suc replicate_append_same)
    then show ?thesis
      using eleven e12 by (simp only: consumeTokens_append fst_conv snd_conv) simp
  qed
  have thirteen: "consumeTokens clock (replicate 13 p) st = (replicate 10 True @ [False, True, False], ?s13)"
  proof -
    have "replicate 13 p = replicate 12 p @ [p]"
      by (simp add: numeral_eq_Suc replicate_append_same)
    then show ?thesis
      using twelve e13 by (simp only: consumeTokens_append fst_conv snd_conv) simp
  qed
  show ?thesis
    by (simp only: ten eleven twelve thirteen fst_conv snd_conv) simp
qed


theorem token_bucket_burst_then_refill_witness:
  "rateBuckets init_state ''brave'' = None \<and>
   fst (consumeTokens frozen_then_later (replicate 13 ''brave'') init_state) =
     replicate 10 True @ [False, True, False]"
proof -
  have fresh: "rateBuckets init_state ''brave'' = None"
    by (simp add: init_state_def)
  have still: "\<forall>j<12. frozen_then_later (ticks init_state + j) = 1700000000000"
    by (simp add: frozen_then_later_def init_state_def)
  have l12: "frozen_then_later (ticks init_state + 12) = 1700000000000 + 100"
    by (simp add: frozen_then_later_def init_state_def)
  have l13: "frozen_then_later (ticks init_state + 13) = 1700000000000 + 100"
    by (simp add: frozen_then_later_def init_state_def)
  show ?thesis
    using fresh token_bucket_burst_then_refill [OF fresh still l12 l13] by simp
qed

text \<open>
  C9. The claim: \<open>0 \<le> tokens \<le> maxTokens\<close> after every refill-then-consume, for any
  sequence of timestamps. \<open>Date.now()\<close> is the wall clock and nothing in \<open>consumeToken\<close>
  guards against a reading earlier than \<open>lastRefill\<close>: when the clock is set back two
  seconds between the creation of the bucket and the refill, the elapsed time is negative
  and the bucket is left with -10 tokens.
\<close>

theorem token_bucket_backward_clock_counterexample:
  "fst (consumeToken backward_clock ''brave'' init_state) = False \<and>
   rateBuckets (snd (consumeToken backward_clock ''brave'' init_state)) ''brave'' =
     Some (bucket_at (- 10) 1700000000000) \<and>
   \<not> bucket_ok (bucket_at (- 10) 1700000000000)"
  by (simp add: consumeToken_def getRateBucket_def consumeToken_bucket_def backward_clock_def
      init_state_def bucket_at_def bucket_ok_def Let_def)

lemma bucket_step_ok:
  assumes "bucket_ok b" and "0 \<le> refillRate b" and "lastRefill b \<le> now"
  shows "bucket_ok (snd (consumeToken_bucket now b)) \<and>
         refillRate (snd (consumeToken_bucket now b)) = refillRate b \<and>
         lastRefill (snd (consumeToken_bucket now b)) = now"
proof -
  have e: "0 \<le> (of_int (now - lastRefill b) :: rat) / 1000"
    using assms(3) by simp
  have "0 \<le> (of_int (now - lastRefill b) :: rat) / 1000 * refillRate b"
    using e assms(2) by (rule mult_nonneg_nonneg)
  then show ?thesis
    using assms(1) by (auto simp: consumeToken_bucket_def bucket_ok_def Let_def min_def)
qed

lemma bucket_at_full_ok: "bucket_ok (bucket_at 10 t) \<and> 0 \<le> refillRate (bucket_at 10 t) \<and> lastRefill (bucket_at 10 t) = t"
  by (simp add: bucket_ok_def bucket_at_def)

lemma consumeToken_inv:
  assumes "mono clock" and "buckets_inv clock st"
  shows "buckets_inv clock (snd (consumeToken clock p st))"
proof (cases "rateBuckets st p")
  case None
  let ?b = "snd (consumeToken_bucket (clock (Suc (ticks st))) (bucket_at 10 (clock (ticks st))))"
  have m1: "clock (ticks st) \<le> clock (Suc (ticks st))"
    using assms(1) by (simp add: monoD)
  have m2: "clock (ticks st) \<le> clock (Suc (Suc (ticks st)))"
    using assms(1) by (simp add: monoD)
  have m3: "clock (Suc (ticks st)) \<le> clock (Suc (Suc (ticks st)))"
    using assms(1) by (simp add: monoD)
  have new: "bucket_ok ?b \<and> refillRate ?b = refillRate (bucket_at 10 (clock (ticks st))) \<and>
      lastRefill ?b = clock (Suc (ticks st))"
    using bucket_at_full_ok [of "clock (ticks st)"] m1 by (intro bucket_step_ok) simp_all
  show ?thesis
    unfolding consumeToken_fresh [OF None] buckets_inv_def
    using assms(2) new m2 m3 bucket_at_full_ok [of "clock (ticks st)"]
    by (auto simp: buckets_inv_def intro: order_trans)
next
  case (Some b)
  let ?b = "snd (consumeToken_bucket (clock (ticks st)) b)"
  have old: "bucket_ok b \<and> 0 \<le> refillRate b \<and> lastRefill b \<le> clock (ticks st)"
    using assms(2) Some by (simp add: buckets_inv_def)
  have m: "clock (ticks st) \<le> clock (Suc (ticks st))"
    using assms(1) by (simp add: monoD)
  have new: "bucket_ok ?b \<and> refillRate ?b = refillRate b \<and> lastRefill ?b = clock (ticks st)"
    using old by (intro bucket_step_ok) simp_all
  show ?thesis
    unfolding consumeToken_existing [OF Some] buckets_inv_def
    using assms(2) new old m
    by (auto simp: buckets_inv_def intro: order_trans)
qed

lemma consumeTokens_inv:
  assumes "mono clock" and "buckets_inv clock st"
  shows "buckets_inv clock (snd (consumeTokens clock ps st))"
  using assms(2)
proof (induction ps arbitrary: st)
  case Nil
  then show ?case by simp
next
  case (Cons p ps)
  have "buckets_inv clock (snd (consumeToken clock p st))"
    using assms(1) Cons.prems by (rule consumeToken_inv)
  then have "buckets_inv clock (snd (consumeTokens clock ps (snd (consumeToken clock p st))))"
    by (rule Cons.IH)
  then show ?case
    by (simp add: Let_def case_prod_beta)
qed

lemma steady_run:
  "rateBuckets (snd (consumeTokens steady_clock [''brave'', ''brave'', ''xai''] init_state)) ''brave'' =
     Some (bucket_at (42 / 5) 1700000000080)"
  by (simp add: consumeToken_def getRateBucket_def consumeToken_bucket_def steady_clock_def
      init_state_def bucket_at_def Let_def)

lemma bucket_step_upper:
  "tokens (snd (consumeToken_bucket now b)) \<le> maxTokens (snd (consumeToken_bucket now b))"
  by (simp add: consumeToken_bucket_def Let_def min_def)

lemma consumeToken_cases:
  "\<exists>b0 now. snd (consumeToken clock p st) =
     st\<lparr>rateBuckets := (rateBuckets st)(p \<mapsto> snd (consumeToken_bucket now b0)),
        ticks := ticks (snd (consumeToken clock p st))\<rparr>"
proof (cases "rateBuckets st p")
  case None
  show ?thesis
    unfolding consumeToken_fresh [OF None] by (intro exI) simp
next
  case (Some b)
  show ?thesis
    unfolding consumeToken_existing [OF Some] by (intro exI) simp
qed

lemma consumeToken_upper:
  assumes "\<forall>q b. rateBuckets st q = Some b \<longrightarrow> tokens b \<le> maxTokens b"
  shows "\<forall>q b. rateBuckets (snd (consumeToken clock p st)) q = Some b \<longrightarrow> tokens b \<le> maxTokens b"
proof -
  obtain b0 now where e: "snd (consumeToken clock p st) =
     st\<lparr>rateBuckets := (rateBuckets st)(p \<mapsto> snd (consumeToken_bucket now b0)),
        ticks := ticks (snd (consumeToken clock p st))\<rparr>"
    using consumeToken_cases by blast
  have "\<forall>q b. ((rateBuckets st)(p \<mapsto> snd (consumeToken_bucket now b0))) q = Some b \<longrightarrow>
      tokens b \<le> maxTokens b"
    using assms bucket_step_upper [of now b0] by auto
  then show ?thesis
    by (subst e) simp
qed

lemma consumeTokens_upper:
  assumes "\<forall>q b. rateBuckets st q = Some b \<longrightarrow> tokens b \<le> maxTokens b"
  shows "\<forall>q b. rateBuckets (snd (consumeTokens clock ps st)) q = Some b \<longrightarrow> tokens b \<le> maxTokens b"
  using assms
proof (induction ps arbitrary: st)
  case Nil
  then show ?case by simp
next
  case (Cons p ps)
  have "\<forall>q b. rateBuckets (snd (consumeToken clock p st)) q = Some b \<longrightarrow> tokens b \<le> maxTokens b"
    using Cons.prems by (rule consumeToken_upper)
  then have "\<forall>q b. rateBuckets (snd (consumeTokens clock ps (snd (consumeToken clock p st)))) q = Some b
      \<longrightarrow> tokens b \<le> maxTokens b"
    by (rule Cons.IH)
  then show ?case
    by (simp add: Let_def case_prod_beta)
qed

text \<open>
  C9, as amended. After any sequence of \<open>consumeToken\<close> operations, on whatever providers,
  started from the empty bucket map, every bucket satisfies \<open>tokens \<le> maxTokens\<close>, for any
  readings of the clock; and it satisfies \<open>0 \<le> tokens\<close> when the readings of the clock
  never decrease.
\<close>

theorem token_bucket_bounds:
  assumes "rateBuckets st = Map.empty"
    and "rateBuckets (snd (consumeTokens clock ps st)) p = Some b"
  shows "tokens b \<le> maxTokens b \<and> (mono clock \<longrightarrow> 0 \<le> tokens b)"
proof
  have "\<forall>q b. rateBuckets st q = Some b \<longrightarrow> tokens b \<le> maxTokens b"
    using assms(1) by simp
  then have "\<forall>q b. rateBuckets (snd (consumeTokens clock ps st)) q = Some b \<longrightarrow> tokens b \<le> maxTokens b"
    by (rule consumeTokens_upper)
  then show "tokens b \<le> maxTokens b"
    using assms(2) by blast
next
  show "mono clock \<longrightarrow> 0 \<le> tokens b"
  proof
    assume m: "mono clock"
    have "buckets_inv clock st"
      using assms(1) by (simp add: buckets_inv_def)
    then have "buckets_inv clock (snd (consumeTokens clock ps st))"
      using m by (intro consumeTokens_inv)
    then have "bucket_ok b"
      using assms(2) by (simp add: buckets_inv_def)
    then show "0 \<le> tokens b"
      by (simp add: bucket_ok_def)
  qed
qed

lemma backward_run:
  "rateBuckets (snd (consumeTokens backward_clock [''brave''] init_state)) ''brave'' =
     Some (bucket_at (- 10) 1700000000000)"
  by (simp add: consumeToken_def getRateBucket_def consumeToken_bucket_def backward_clock_def
      init_state_def bucket_at_def Let_def)

theorem token_bucket_bounds_witness:
  "mono steady_clock \<and>
   rateBuckets (snd (consumeTokens steady_clock [''brave'', ''brave'', ''xai''] init_state)) ''brave'' =
     Some (bucket_at (42 / 5) 1700000000080) \<and>
   0 \<le> tokens (bucket_at (42 / 5) 1700000000080) \<and>
   tokens (bucket_at (42 / 5) 1700000000080) \<le> maxTokens (bucket_at (42 / 5) 1700000000080) \<and>
   rateBuckets (snd (consumeTokens backward_clock [''brave''] init_state)) ''brave'' =
     Some (bucket_at (- 10) 1700000000000) \<and>
   tokens (bucket_at (- 10) 1700000000000) \<le> maxTokens (bucket_at (- 10) 1700000000000)"
proof -
  have m: "mono steady_clock"
    by (simp add: mono_def steady_clock_def)
  have e: "rateBuckets init_state = Map.empty"
    by (simp add: init_state_def)
  show ?thesis
    using m steady_run backward_run token_bucket_bounds [OF e steady_run]
      token_bucket_bounds [OF e backward_run]
    by simp
qed

end
